theory Spec2Isabelle
  imports Main
begin

section \<open>Python values\<close>

text \<open>
  A Python \<open>str\<close> is a sequence of Unicode code points. A code point is a natural number
  here, so that \<open>len\<close>, the regular-expression classes and the Cyrillic messages of
  \<open>app_main.py\<close> are what Python sees (a byte string would count UTF-8 bytes).
  ASCII literals are written through \<open>ustr_of\<close>.
\<close>

type_synonym ustr = "nat list"

definition ustr_of :: "string \<Rightarrow> ustr" where
  "ustr_of s = map of_char s"

text \<open>
  The exceptions that can travel through the request path. \<open>ValueError\<close> carries
  \<open>str(e)\<close>; \<open>HTTPException\<close> carries \<open>status_code\<close> and \<open>detail\<close>;
  \<open>OtherException\<close> is any other subclass of \<open>Exception\<close>;
  \<open>BaseExceptionOnly\<close> is an exception outside \<open>Exception\<close>
  (\<open>asyncio.CancelledError\<close>, \<open>KeyboardInterrupt\<close>, \<open>SystemExit\<close>), which
  \<open>except Exception\<close> does not catch.
\<close>

datatype exn =
    ValueError ustr
  | HTTPException nat ustr
  | OtherException ustr
  | BaseExceptionOnly ustr


fun is_Exception :: "exn \<Rightarrow> bool" where
  "is_Exception (BaseExceptionOnly m) = False"
| "is_Exception e = True"

subsection \<open>String operations\<close>

text \<open>\<open>s.startswith(p)\<close>\<close>

fun startswith :: "ustr \<Rightarrow> ustr \<Rightarrow> bool" where
  "startswith s [] = True"
| "startswith [] (p # ps) = False"
| "startswith (c # cs) (p # ps) = (c = p \<and> startswith cs ps)"

text \<open>\<open>needle in hay\<close> on strings: \<open>needle\<close> occurs as a contiguous substring.\<close>

fun contains :: "ustr \<Rightarrow> ustr \<Rightarrow> bool" where
  "contains [] needle = (needle = [])"
| "contains (c # cs) needle = (startswith (c # cs) needle \<or> contains cs needle)"

subsection \<open>The classes \<open>\<bsol>s\<close> and \<open>\<bsol>d\<close> of \<open>re\<close> on \<open>str\<close> patterns\<close>

text \<open>
  On a \<open>str\<close> pattern without \<open>re.ASCII\<close>, \<open>\<bsol>s\<close> matches the Unicode whitespace
  characters and \<open>\<bsol>d\<close> the Unicode decimal digits (category Nd), which come in runs
  of ten starting at a zero digit. The tables are those of Unicode 14.0 (CPython 3.11).
\<close>

definition unicode_whitespace :: "nat list" where
  "unicode_whitespace =
     [9, 10, 11, 12, 13, 28, 29, 30, 31, 32, 133, 160, 5760,
      8192, 8193, 8194, 8195, 8196, 8197, 8198, 8199, 8200, 8201, 8202,
      8232, 8233, 8239, 8287, 12288]"

definition isspace :: "nat \<Rightarrow> bool" where
  "isspace c = (c \<in> set unicode_whitespace)"

definition decimal_zeros :: "nat list" where
  "decimal_zeros =
     [48, 1632, 1776, 1984, 2406, 2534, 2662, 2790, 2918, 3046, 3174, 3302, 3430,
      3558, 3664, 3792, 3872, 4160, 4240, 6112, 6160, 6470, 6608, 6784, 6800, 6992,
      7088, 7232, 7248, 42528, 43216, 43264, 43472, 43504, 43600, 44016, 65296,
      66720, 68912, 69734, 69872, 69942, 70096, 70384, 70736, 70864, 71248, 71360,
      71472, 71904, 72016, 72784, 73040, 73120, 92768, 92864, 93008, 120782, 120792,
      120802, 120812, 120822, 123200, 123632, 125264, 130032]"

definition isdecimal :: "nat \<Rightarrow> bool" where
  "isdecimal c = list_ex (\<lambda>z. z \<le> c \<and> c < z + 10) decimal_zeros"

text \<open>
  \<open>re.sub(r"\<bsol>s+", "", s)\<close>: scanning from the left, every maximal run of one or more
  whitespace characters is replaced by the empty string.
\<close>

function re_sub_whitespace :: "ustr \<Rightarrow> ustr" where
  "re_sub_whitespace [] = []"
| "re_sub_whitespace (c # cs) =
     (if isspace c then re_sub_whitespace (dropWhile isspace cs)
      else c # re_sub_whitespace cs)"
  by pat_completeness auto
termination
  by (relation "measure length") (auto simp: length_dropWhile_le less_Suc_eq_le)

text \<open>
  \<open>re.fullmatch(r"\<bsol>+\<bsol>d{5,20}", s)\<close> as a truth value: the whole of \<open>s\<close> is a
  \<open>+\<close> (code point 43) followed by between 5 and 20 characters of class \<open>\<bsol>d\<close>.
\<close>

definition fullmatch_plus_digits :: "ustr \<Rightarrow> bool" where
  "fullmatch_plus_digits s =
     (case s of
        [] \<Rightarrow> False
      | c # ds \<Rightarrow> c = 43 \<and> 5 \<le> length ds \<and> length ds \<le> 20 \<and> list_all isdecimal ds)"

section \<open>\<open>_normalize_phone\<close>\<close>

text \<open>The two messages of \<open>_normalize_phone\<close>, as code points.\<close>

definition msg_empty_phone :: ustr where
  "msg_empty_phone =
     [1055, 1091, 1089, 1090, 1086, 1081, 32, 1085, 1086, 1084, 1077, 1088, 32,
      1090, 1077, 1083, 1077, 1092, 1086, 1085, 1072]"

definition msg_bad_format :: ustr where
  "msg_bad_format =
     [1053, 1077, 1074, 1077, 1088, 1085, 1099, 1081, 32, 1092, 1086, 1088, 1084,
      1072, 1090, 32, 1085, 1086, 1084, 1077, 1088, 1072, 32, 1090, 1077, 1083,
      1077, 1092, 1086, 1085, 1072]"

text \<open>The second step of \<open>_normalize_phone\<close>: a \<open>+\<close> in front unless there is one.\<close>

definition ensure_plus :: "ustr \<Rightarrow> ustr" where
  "ensure_plus s = (if \<not> startswith s (ustr_of ''+'') then 43 # s else s)"

definition normalize_phone :: "ustr \<Rightarrow> exn + ustr" where
  "normalize_phone phone =
     (if phone = [] then Inl (ValueError msg_empty_phone)
      else
        let normalized = ensure_plus (re_sub_whitespace phone)
        in if \<not> fullmatch_plus_digits normalized then Inl (ValueError msg_bad_format)
           else Inr normalized)"

section \<open>The collaborator and the module state\<close>

text \<open>
  The values a lookup record holds: \<open>None\<close>, a \<open>str\<close> (\<open>username\<close>, \<open>error\<close>) or
  an \<open>int\<close> (\<open>id\<close>). A \<open>dict\<close> is an association list read with \<open>map_of\<close>; the
  empty list is the empty \<open>dict\<close>.
\<close>

datatype pyval = PNone | PStr ustr | PInt int

type_synonym pydict = "(ustr \<times> pyval) list"

text \<open>Python's truth value of an object.\<close>

fun truthy :: "pyval \<Rightarrow> bool" where
  "truthy PNone = False"
| "truthy (PStr s) = (s \<noteq> [])"
| "truthy (PInt i) = (i \<noteq> 0)"

fun show_nat :: "nat \<Rightarrow> ustr" where
  "show_nat n = (if n < 10 then [48 + n] else show_nat (n div 10) @ [48 + n mod 10])"

declare show_nat.simps [simp del]

text \<open>\<open>str(v)\<close>, which is also what an f-string field \<open>{v}\<close> renders.\<close>

fun str_of :: "pyval \<Rightarrow> ustr" where
  "str_of PNone = ustr_of ''None''"
| "str_of (PStr s) = s"
| "str_of (PInt i) = (if i < 0 then 45 # show_nat (nat (- i)) else show_nat (nat i))"

text \<open>\<open>d.get(k)\<close>: the value, or \<open>None\<close> when the key is missing.\<close>

definition dict_get :: "pydict \<Rightarrow> ustr \<Rightarrow> pyval" where
  "dict_get d k = (case map_of d k of None \<Rightarrow> PNone | Some v \<Rightarrow> v)"

text \<open>\<open>k in d\<close>\<close>

definition dict_has :: "pydict \<Rightarrow> ustr \<Rightarrow> bool" where
  "dict_has d k = (map_of d k \<noteq> None)"

text \<open>
  A \<open>TelegramClient\<close> is known by its identity only. The calls made to the library
  \<open>telegram_phone_number_checker\<close> are recorded in order, each with what it answered
  (a value, or the exception it raised). What a call answers is given by the \<open>world\<close>,
  as a function of the calls made before it, so that the same call may answer
  differently at different times.
\<close>

type_synonym client = nat

datatype event =
    Login "exn + client"
  | Lookup client ustr "exn + pydict option"
  | Disconnect client "exn + unit"

record world =
  login :: "event list \<Rightarrow> exn + client"
  get_user_info_by_phone :: "event list \<Rightarrow> client \<Rightarrow> ustr \<Rightarrow> exn + pydict option"
  disconnect :: "event list \<Rightarrow> client \<Rightarrow> exn + unit"

text \<open>
  The state a handler runs in: the module global \<open>_client\<close>, the calls made to the
  library so far, and what \<open>logger.exception\<close> has written (the phone and the exception).
  A coroutine is run from its call to its return.
\<close>

record state =
  client_global :: "client option"
  events :: "event list"
  logged :: "(ustr \<times> exn) list"

section \<open>\<open>_get_or_create_client\<close>\<close>

definition get_or_create_client :: "world \<Rightarrow> state \<Rightarrow> (exn + client) \<times> state" where
  "get_or_create_client w st =
     (case client_global st of
        None \<Rightarrow>
          (let r = login w (events st);
               st1 = st\<lparr>events := events st @ [Login r]\<rparr>
           in case r of
                Inl e \<Rightarrow> (Inl e, st1)
              | Inr c \<Rightarrow> (Inr c, st1\<lparr>client_global := Some c\<rparr>))
      | Some c \<Rightarrow> (Inr c, st))"

section \<open>\<open>_build_result_string\<close>\<close>

definition msg_unknown_error :: ustr where
  "msg_unknown_error =
     [1053, 1077, 1080, 1079, 1074, 1077, 1089, 1090, 1085, 1072, 1103, 32, 1086,
      1096, 1080, 1073, 1082, 1072]"

definition msg_not_on_telegram :: ustr where
  "msg_not_on_telegram =
     [1053, 1077, 1090, 32, 1090, 1072, 1082, 1086, 1075, 1086, 32, 1087, 1086, 1083,
      1100, 1079, 1086, 1074, 1072, 1090, 1077, 1083, 1103, 32, 1074, 32, 84, 101,
      108, 101, 103, 114, 97, 109, 32, 1080, 1083, 1080, 32, 1079, 1072, 1073, 1083,
      1086, 1082, 1080, 1088, 1086, 1074, 1072, 1085, 1086, 32, 1076, 1086, 1073,
      1072, 1074, 1083, 1077, 1085, 1080, 1077, 32, 1074, 32, 1082, 1086, 1085, 1090,
      1072, 1082, 1090, 1099]"

definition msg_multiple_accounts :: ustr where
  "msg_multiple_accounts =
     [1053, 1086, 1084, 1077, 1088, 32, 1087, 1088, 1080, 1074, 1103, 1079, 1072,
      1085, 32, 1082, 32, 1085, 1077, 1089, 1082, 1086, 1083, 1100, 1082, 1080, 1084,
      32, 1072, 1082, 1082, 1072, 1091, 1085, 1090, 1072, 1084, 32, 40, 1085, 1077,
      1086, 1078, 1080, 1076, 1072, 1085, 1085, 1072, 1103, 32, 1089, 1080, 1090,
      1091, 1072, 1094, 1080, 1103, 41]"

definition msg_no_username :: ustr where
  "msg_no_username =
     [1059, 32, 1087, 1086, 1083, 1100, 1079, 1086, 1074, 1072, 1090, 1077, 1083,
      1103, 32, 1085, 1077, 1090, 32, 117, 115, 101, 114, 110, 97, 109, 101]"

definition msg_undetermined :: ustr where
  "msg_undetermined =
     [1053, 1077, 32, 1091, 1076, 1072, 1083, 1086, 1089, 1100, 32, 1086, 1087, 1088,
      1077, 1076, 1077, 1083, 1080, 1090, 1100, 32, 1080, 1085, 1092, 1086, 1088,
      1084, 1072, 1094, 1080, 1102, 32, 1087, 1086, 32, 1085, 1086, 1084, 1077, 1088,
      1091]"

text \<open>
  Lines 63 to 88 of \<open>_build_result_string\<close>: from the lookup's answer to the one
  string. \<open>not info\<close> holds of \<open>None\<close> and of the empty \<open>dict\<close>.
\<close>

definition translate_info :: "pydict option \<Rightarrow> ustr" where
  "translate_info info_opt =
     (case info_opt of
        None \<Rightarrow> msg_unknown_error
      | Some info \<Rightarrow>
          if info = [] then msg_unknown_error
          else if dict_has info (ustr_of ''error'') \<and> truthy (dict_get info (ustr_of ''error''))
          then
            (let error_text = str_of (dict_get info (ustr_of ''error''))
             in if contains error_text (ustr_of ''not on Telegram'')
                then msg_not_on_telegram
                else if contains error_text (ustr_of ''multiple Telegram accounts'')
                then msg_multiple_accounts
                else error_text)
          else
            (let username = dict_get info (ustr_of ''username'')
             in if truthy username then 64 # str_of username
                else if truthy (dict_get info (ustr_of ''id'')) then msg_no_username
                else msg_undetermined))"

definition build_result_string :: "world \<Rightarrow> state \<Rightarrow> ustr \<Rightarrow> (exn + ustr) \<times> state" where
  "build_result_string w st phone =
     (case normalize_phone phone of
        Inl e \<Rightarrow> (Inl e, st)
      | Inr normalized \<Rightarrow>
          (case get_or_create_client w st of
             (Inl e, st1) \<Rightarrow> (Inl e, st1)
           | (Inr c, st1) \<Rightarrow>
               (let r = get_user_info_by_phone w (events st1) c normalized;
                    st2 = st1\<lparr>events := events st1 @ [Lookup c normalized r]\<rparr>
                in case r of
                     Inl e \<Rightarrow> (Inl e, st2)
                   | Inr info \<Rightarrow> (Inr (translate_info info), st2))))"

section \<open>\<open>shutdown_event\<close>\<close>

definition shutdown_event :: "world \<Rightarrow> state \<Rightarrow> (exn + unit) \<times> state" where
  "shutdown_event w st =
     (case client_global st of
        None \<Rightarrow> (Inr (), st)
      | Some c \<Rightarrow>
          (let r = disconnect w (events st) c;
               st1 = st\<lparr>events := events st @ [Disconnect c r]\<rparr>
           in case r of
                Inl e \<Rightarrow> (Inl e, st1)
              | Inr u \<Rightarrow> (Inr (), st1\<lparr>client_global := None\<rparr>)))"

section \<open>The handlers \<open>check_phone\<close> and \<open>check_phone_post\<close>\<close>

definition msg_internal_error :: ustr where
  "msg_internal_error =
     [1042, 1085, 1091, 1090, 1088, 1077, 1085, 1085, 1103, 1103, 32, 1086, 1096,
      1080, 1073, 1082, 1072, 32, 1089, 1077, 1088, 1074, 1080, 1089, 1072]"

text \<open>
  A handler returns a \<open>dict\<close> of strings, which the framework sends with status 200, or
  raises. \<open>HTTPException 500 d\<close> is sent by the framework as status 500 with the body
  \<open>{"detail": d}\<close>.
\<close>

type_synonym response = "(ustr \<times> ustr) list"

definition result_body :: "ustr \<Rightarrow> response" where
  "result_body s = [(ustr_of ''result'', s)]"

definition check_phone :: "world \<Rightarrow> state \<Rightarrow> ustr \<Rightarrow> (exn + response) \<times> state" where
  "check_phone w st phone =
     (case build_result_string w st phone of
        (Inr result, st1) \<Rightarrow> (Inr (result_body result), st1)
      | (Inl (ValueError m), st1) \<Rightarrow> (Inr (result_body m), st1)
      | (Inl e, st1) \<Rightarrow>
          (if is_Exception e
           then (Inl (HTTPException 500 msg_internal_error),
                 st1\<lparr>logged := logged st1 @ [(phone, e)]\<rparr>)
           else (Inl e, st1)))"

record phone_request =
  phone :: ustr

definition check_phone_post :: "world \<Rightarrow> state \<Rightarrow> phone_request \<Rightarrow> (exn + response) \<times> state" where
  "check_phone_post w st body = check_phone w st (phone body)"

section \<open>Calls in sequence\<close>



section \<open>The service as a sequence of requests\<close>

text \<open>
  The service starts with no client, and then serves requests and shutdown events one
  after the other.
\<close>

definition initial_state :: state where
  "initial_state = \<lparr>client_global = None, events = [], logged = []\<rparr>"







section \<open>Worlds to run the service in\<close>

text \<open>
  A world where every call answers: \<open>login\<close> returns a new client each time, the
  lookup finds the user \<open>alice\<close>.
\<close>

definition world_ok :: world where
  "world_ok =
     \<lparr>login = (\<lambda>h. Inr (length h)),
      get_user_info_by_phone =
        (\<lambda>h c p. Inr (Some [(ustr_of ''id'', PInt 123), (ustr_of ''username'', PStr (ustr_of ''alice''))])),
      disconnect = (\<lambda>h c. Inr ())\<rparr>"

text \<open>A world where \<open>login\<close> raises a \<open>ValueError\<close> (a malformed \<open>API_ID\<close>).\<close>

definition world_login_ValueError :: world where
  "world_login_ValueError =
     world_ok\<lparr>login := (\<lambda>h. Inl (ValueError (ustr_of ''invalid literal for int()'')))\<rparr>"

text \<open>A world where the lookup raises a \<open>ValueError\<close>.\<close>

definition world_lookup_ValueError :: world where
  "world_lookup_ValueError =
     world_ok\<lparr>get_user_info_by_phone :=
       (\<lambda>h c p. Inl (ValueError (ustr_of ''Cannot find any entity'')))\<rparr>"

text \<open>A world where the lookup raises a subclass of \<open>Exception\<close> other than \<open>ValueError\<close>.\<close>

definition world_lookup_fails :: world where
  "world_lookup_fails =
     world_ok\<lparr>get_user_info_by_phone :=
       (\<lambda>h c p. Inl (OtherException (ustr_of ''ConnectionError: timed out'')))\<rparr>"

text \<open>A world where the lookup is cancelled: \<open>CancelledError\<close> is not an \<open>Exception\<close>.\<close>

definition world_lookup_cancelled :: world where
  "world_lookup_cancelled =
     world_ok\<lparr>get_user_info_by_phone :=
       (\<lambda>h c p. Inl (BaseExceptionOnly (ustr_of ''CancelledError'')))\<rparr>"

section \<open>Facts about the string operations\<close>

lemma filter_dropWhile_not:
  "filter (\<lambda>c. \<not> P c) (dropWhile P xs) = filter (\<lambda>c. \<not> P c) xs"
  by (induction xs) simp_all

lemma re_sub_whitespace_filter: "re_sub_whitespace s = filter (\<lambda>c. \<not> isspace c) s"
  by (induction s rule: re_sub_whitespace.induct) (simp_all add: filter_dropWhile_not)

lemma plus_not_space: "\<not> isspace 43"
  by (simp add: isspace_def unicode_whitespace_def)

lemma ustr_plus: "ustr_of ''+'' = [43]"
  by (simp add: ustr_of_def)

lemma ensure_plus_cases:
  "ensure_plus s = (case s of [] \<Rightarrow> [43] | c # cs \<Rightarrow> if c = 43 then s else 43 # s)"
  by (cases s) (auto simp: ensure_plus_def ustr_plus)

lemma ensure_plus_idem: "ensure_plus (ensure_plus s) = ensure_plus s"
  by (cases s) (auto simp: ensure_plus_cases)

lemma ensure_plus_nospace:
  "\<forall>c\<in>set s. \<not> isspace c \<Longrightarrow> \<forall>c\<in>set (ensure_plus s). \<not> isspace c"
  by (cases s) (auto simp: ensure_plus_cases plus_not_space)

lemma fullmatch_starts_plus: "fullmatch_plus_digits s \<Longrightarrow> \<exists>ds. s = 43 # ds"
  by (cases s) (auto simp: fullmatch_plus_digits_def)

lemma startswith_append: "startswith s p \<longleftrightarrow> (\<exists>r. s = p @ r)"
  by (induction s p rule: startswith.induct) auto

lemma contains_substring: "contains hay needle \<longleftrightarrow> (\<exists>pre post. hay = pre @ needle @ post)"
proof (induction hay)
  case Nil
  then show ?case by auto
next
  case (Cons c cs)
  show ?case
  proof
    assume "contains (c # cs) needle"
    then consider "startswith (c # cs) needle" | "contains cs needle" by auto
    then show "\<exists>pre post. c # cs = pre @ needle @ post"
    proof cases
      case 1
      then obtain r where "c # cs = needle @ r" by (auto simp: startswith_append)
      then have "c # cs = [] @ needle @ r" by simp
      then show ?thesis by blast
    next
      case 2
      with Cons obtain pre post where "cs = pre @ needle @ post" by blast
      then have "c # cs = (c # pre) @ needle @ post" by simp
      then show ?thesis by blast
    qed
  next
    assume "\<exists>pre post. c # cs = pre @ needle @ post"
    then obtain pre post where e: "c # cs = pre @ needle @ post" by blast
    show "contains (c # cs) needle"
    proof (cases pre)
      case Nil
      with e have "startswith (c # cs) needle" by (auto simp: startswith_append)
      then show ?thesis by simp
    next
      case (Cons a pre')
      with e have "cs = pre' @ needle @ post" by simp
      with Cons.IH have "contains cs needle" by blast
      then show ?thesis by simp
    qed
  qed
qed

section \<open>The phone normalizer\<close>

lemma normalize_phone_Inr_iff:
  "normalize_phone s = Inr n \<longleftrightarrow>
     s \<noteq> [] \<and> fullmatch_plus_digits (ensure_plus (re_sub_whitespace s)) \<and>
     n = ensure_plus (re_sub_whitespace s)"
  by (auto simp: normalize_phone_def Let_def)


lemmas string_eval =
  ustr_of_def normalize_phone_def ensure_plus_def fullmatch_plus_digits_def
  isspace_def unicode_whitespace_def isdecimal_def decimal_zeros_def

text \<open>
  Claim C2. For every input string \<open>s\<close>, \<open>_normalize_phone\<close> removes all whitespace
  (the substitution is the filter that drops the characters of class \<open>\<bsol>s\<close>), puts a
  \<open>+\<close> in front unless the stripped string starts with one, and returns that string
  exactly when it is a \<open>+\<close> followed by 5 to 20 decimal digits; otherwise it raises
  \<open>ValueError\<close> with one of its two messages, neither of them empty. In particular,
  when \<open>s\<close> with its whitespace removed is a \<open>+\<close> followed by 5 to 20 digits, the
  result is \<open>s\<close> with its whitespace removed.
\<close>

theorem normalize_phone_contract:
  "re_sub_whitespace s = filter (\<lambda>c. \<not> isspace c) s \<and>
   ensure_plus t = (if startswith t [43] then t else 43 # t) \<and>
   normalize_phone s =
     (if fullmatch_plus_digits (ensure_plus (re_sub_whitespace s))
      then Inr (ensure_plus (re_sub_whitespace s))
      else Inl (ValueError (if s = [] then msg_empty_phone else msg_bad_format))) \<and>
   msg_empty_phone \<noteq> [] \<and> msg_bad_format \<noteq> [] \<and>
   (fullmatch_plus_digits (filter (\<lambda>c. \<not> isspace c) s) \<longrightarrow>
      normalize_phone s = Inr (filter (\<lambda>c. \<not> isspace c) s))"
proof -
  have a: "re_sub_whitespace s = filter (\<lambda>c. \<not> isspace c) s"
    by (rule re_sub_whitespace_filter)
  have b: "ensure_plus t = (if startswith t [43] then t else 43 # t)"
    by (simp add: ensure_plus_def ustr_plus)
  have e: "\<not> fullmatch_plus_digits (ensure_plus (re_sub_whitespace []))"
    by (simp add: ensure_plus_cases fullmatch_plus_digits_def)
  have c: "normalize_phone s =
     (if fullmatch_plus_digits (ensure_plus (re_sub_whitespace s))
      then Inr (ensure_plus (re_sub_whitespace s))
      else Inl (ValueError (if s = [] then msg_empty_phone else msg_bad_format)))"
    using e by (auto simp: normalize_phone_def Let_def)
  have d: "msg_empty_phone \<noteq> [] \<and> msg_bad_format \<noteq> []"
    by (simp add: msg_empty_phone_def msg_bad_format_def)
  have f: "normalize_phone s = Inr (filter (\<lambda>c. \<not> isspace c) s)"
    if m: "fullmatch_plus_digits (filter (\<lambda>c. \<not> isspace c) s)"
  proof -
    from fullmatch_starts_plus [OF m]
    obtain ds where ds: "filter (\<lambda>c. \<not> isspace c) s = 43 # ds" ..
    then have ep: "ensure_plus (re_sub_whitespace s) = filter (\<lambda>c. \<not> isspace c) s"
      by (simp add: a ensure_plus_cases)
    from ds have "s \<noteq> []" by auto
    with m ep show ?thesis by (simp add: normalize_phone_Inr_iff)
  qed
  from a b c d f show ?thesis by blast
qed

theorem normalize_phone_contract_witness:
  "fullmatch_plus_digits (filter (\<lambda>c. \<not> isspace c) (ustr_of ''+1 234 567'')) \<and>
   normalize_phone (ustr_of ''+1 234 567'') = Inr (ustr_of ''+1234567'') \<and>
   normalize_phone (ustr_of ''12ab'') = Inl (ValueError msg_bad_format)"
proof -
  have h: "fullmatch_plus_digits (filter (\<lambda>c. \<not> isspace c) (ustr_of ''+1 234 567''))"
    by (simp add: string_eval)
  have v: "filter (\<lambda>c. \<not> isspace c) (ustr_of ''+1 234 567'') = ustr_of ''+1234567''"
    by (simp add: string_eval)
  have n: "\<not> fullmatch_plus_digits (ensure_plus (re_sub_whitespace (ustr_of ''12ab'')))"
    by (simp add: string_eval)
  have ne: "ustr_of ''12ab'' \<noteq> []"
    by (simp add: ustr_of_def)
  from normalize_phone_contract [of "ustr_of ''+1 234 567''" "[]"] h
  have "normalize_phone (ustr_of ''+1 234 567'') =
          Inr (filter (\<lambda>c. \<not> isspace c) (ustr_of ''+1 234 567''))"
    by blast
  with v have 1: "normalize_phone (ustr_of ''+1 234 567'') = Inr (ustr_of ''+1234567'')"
    by simp
  from normalize_phone_contract [of "ustr_of ''12ab''" "[]"]
  have "normalize_phone (ustr_of ''12ab'') =
     (if fullmatch_plus_digits (ensure_plus (re_sub_whitespace (ustr_of ''12ab'')))
      then Inr (ensure_plus (re_sub_whitespace (ustr_of ''12ab'')))
      else Inl (ValueError (if ustr_of ''12ab'' = [] then msg_empty_phone else msg_bad_format)))"
    by blast
  with n ne have 2: "normalize_phone (ustr_of ''12ab'') = Inl (ValueError msg_bad_format)"
    by simp
  from h 1 2 show ?thesis by blast
qed

text \<open>
  Claim C9. \<open>_normalize_phone\<close> is idempotent on its successful outputs: when it
  returns \<open>n\<close> for some input, it returns \<open>n\<close> for the input \<open>n\<close>.
\<close>

theorem normalize_phone_idempotent:
  assumes "normalize_phone s = Inr n"
  shows "normalize_phone n = Inr n"
proof -
  from assms have fm: "fullmatch_plus_digits n"
    and n: "n = ensure_plus (re_sub_whitespace s)"
    by (simp_all add: normalize_phone_Inr_iff)
  have "\<forall>c\<in>set n. \<not> isspace c"
    unfolding n by (rule ensure_plus_nospace) (simp add: re_sub_whitespace_filter)
  then have "re_sub_whitespace n = n"
    by (simp add: re_sub_whitespace_filter)
  moreover have "ensure_plus n = n"
    unfolding n by (rule ensure_plus_idem)
  moreover from fm have "n \<noteq> []"
    by (auto simp: fullmatch_plus_digits_def)
  ultimately show ?thesis using fm by (simp add: normalize_phone_Inr_iff)
qed

theorem normalize_phone_idempotent_witness:
  "normalize_phone (ustr_of '' 7 999 1234567'') = Inr (ustr_of ''+79991234567'') \<and>
   normalize_phone (ustr_of ''+79991234567'') = Inr (ustr_of ''+79991234567'')"
proof -
  have h: "normalize_phone (ustr_of '' 7 999 1234567'') = Inr (ustr_of ''+79991234567'')"
    by (simp add: string_eval)
  from h normalize_phone_idempotent [OF h] show ?thesis by blast
qed

section \<open>The request pipeline\<close>

lemma truthy_dict_get: "truthy (dict_get d k) \<Longrightarrow> dict_has d k"
  by (auto simp: dict_get_def dict_has_def split: option.splits)

lemma build_result_string_bad:
  "normalize_phone p = Inl e \<Longrightarrow> build_result_string w st p = (Inl e, st)"
  by (simp add: build_result_string_def)

lemma check_phone_ValueError:
  "build_result_string w st p = (Inl (ValueError m), st') \<Longrightarrow>
   check_phone w st p = (Inr (result_body m), st')"
  by (simp add: check_phone_def)


lemma check_phone_ok:
  "build_result_string w st p = (Inr r, st') \<Longrightarrow> check_phone w st p = (Inr (result_body r), st')"
  by (simp add: check_phone_def)

lemma get_or_create_client_None:
  "client_global st = None \<Longrightarrow>
   get_or_create_client w st =
     (case login w (events st) of
        Inl e \<Rightarrow> (Inl e, st\<lparr>events := events st @ [Login (Inl e)]\<rparr>)
      | Inr c \<Rightarrow> (Inr c, st\<lparr>events := events st @ [Login (Inr c)], client_global := Some c\<rparr>))"
  by (simp add: get_or_create_client_def Let_def split: sum.splits)





subsection \<open>The handles that exist\<close>












section \<open>Runs on concrete inputs\<close>

lemmas world_eval =
  world_ok_def world_login_ValueError_def world_lookup_ValueError_def world_lookup_fails_def
  world_lookup_cancelled_def initial_state_def

lemmas pipeline_eval =
  check_phone_def check_phone_post_def build_result_string_def get_or_create_client_def
  shutdown_event_def translate_info_def dict_get_def dict_has_def result_body_def Let_def

lemma phone_ok: "normalize_phone (ustr_of ''+1234567'') = Inr (ustr_of ''+1234567'')"
  by (simp add: string_eval)

lemma phone_spaced: "normalize_phone (ustr_of ''+1 234 567'') = Inr (ustr_of ''+1234567'')"
  by (simp add: string_eval)

lemma phone_bad: "normalize_phone (ustr_of ''12ab'') = Inl (ValueError msg_bad_format)"
  by (simp add: string_eval)

section \<open>The result translator\<close>

text \<open>
  Claim C1. For every answer of the lookup, lines 63 to 88 of \<open>_build_result_string\<close>
  give one string, by this order of priority: a missing or empty record gives the
  unknown-error string; else a record whose \<open>error\<close> field is true in Python's sense
  (present, not \<open>None\<close>, not empty) gives the message for "not on Telegram" when the
  error text has that substring, else the message for "multiple Telegram accounts" when
  it has that one, else the error text itself; else a record that carries a username
  (the field is true in the same sense) gives \<open>@\<close> followed by the username; else a
  record that carries an identifier gives the no-username message; else the
  could-not-determine message. "Has the substring" is stated with the text cut in three.
\<close>

theorem translate_info_priority:
  "translate_info None = msg_unknown_error \<and>
   translate_info (Some []) = msg_unknown_error \<and>
   (info \<noteq> [] \<longrightarrow>
      translate_info (Some info) =
        (if truthy (dict_get info (ustr_of ''error''))
         then
           (if \<exists>pre post. str_of (dict_get info (ustr_of ''error'')) =
                  pre @ ustr_of ''not on Telegram'' @ post
            then msg_not_on_telegram
            else if \<exists>pre post. str_of (dict_get info (ustr_of ''error'')) =
                  pre @ ustr_of ''multiple Telegram accounts'' @ post
            then msg_multiple_accounts
            else str_of (dict_get info (ustr_of ''error'')))
         else if truthy (dict_get info (ustr_of ''username''))
         then ustr_of ''@'' @ str_of (dict_get info (ustr_of ''username''))
         else if truthy (dict_get info (ustr_of ''id''))
         then msg_no_username
         else msg_undetermined))"
proof -
  have at: "ustr_of ''@'' = [64]" by (simp add: ustr_of_def)
  have n: "translate_info None = msg_unknown_error"
    by (simp add: translate_info_def)
  have e: "translate_info (Some []) = msg_unknown_error"
    by (simp add: translate_info_def)
  have m: "translate_info (Some info) =
        (if truthy (dict_get info (ustr_of ''error''))
         then
           (if \<exists>pre post. str_of (dict_get info (ustr_of ''error'')) =
                  pre @ ustr_of ''not on Telegram'' @ post
            then msg_not_on_telegram
            else if \<exists>pre post. str_of (dict_get info (ustr_of ''error'')) =
                  pre @ ustr_of ''multiple Telegram accounts'' @ post
            then msg_multiple_accounts
            else str_of (dict_get info (ustr_of ''error'')))
         else if truthy (dict_get info (ustr_of ''username''))
         then ustr_of ''@'' @ str_of (dict_get info (ustr_of ''username''))
         else if truthy (dict_get info (ustr_of ''id''))
         then msg_no_username
         else msg_undetermined)" if "info \<noteq> []"
  proof (cases "truthy (dict_get info (ustr_of ''error''))")
    case True
    with truthy_dict_get [OF True] that show ?thesis
      by (simp add: translate_info_def Let_def contains_substring)
  next
    case False
    with that show ?thesis
      by (simp add: translate_info_def Let_def at)
  qed
  from n e m show ?thesis by blast
qed

theorem translate_info_priority_witness:
  "[(ustr_of ''username'', PStr (ustr_of ''alice''))] \<noteq> [] \<and>
   translate_info (Some [(ustr_of ''username'', PStr (ustr_of ''alice''))]) = ustr_of ''@alice'' \<and>
   translate_info (Some [(ustr_of ''id'', PInt 123)]) = msg_no_username \<and>
   translate_info
     (Some [(ustr_of ''error'',
             PStr (ustr_of ''No response, the phone number is not on Telegram or has blocked contact adding.''))]) =
     msg_not_on_telegram"
proof -
  have ne: "[(ustr_of ''username'', PStr (ustr_of ''alice''))] \<noteq> []" by simp
  have a: "ustr_of ''@'' @ ustr_of ''alice'' = ustr_of ''@alice''" by (simp add: ustr_of_def)
  from translate_info_priority [of "[(ustr_of ''username'', PStr (ustr_of ''alice''))]"] ne
  have 1: "translate_info (Some [(ustr_of ''username'', PStr (ustr_of ''alice''))]) =
      ustr_of ''@'' @ ustr_of ''alice''"
    by (simp add: dict_get_def ustr_of_def)
  have ni: "[(ustr_of ''id'', PInt 123)] \<noteq> []" by simp
  from translate_info_priority [of "[(ustr_of ''id'', PInt 123)]"] ni
  have 2: "translate_info (Some [(ustr_of ''id'', PInt 123)]) = msg_no_username"
    by (simp add: dict_get_def ustr_of_def)
  let ?e = "ustr_of ''No response, the phone number is not on Telegram or has blocked contact adding.''"
  let ?i = "[(ustr_of ''error'', PStr ?e)]"
  have g: "dict_get ?i (ustr_of ''error'') = PStr ?e" by (simp add: dict_get_def)
  have t: "truthy (PStr ?e)" by (simp add: ustr_of_def)
  have "contains ?e (ustr_of ''not on Telegram'')" by (simp add: ustr_of_def)
  with contains_substring have c: "\<exists>pre post. ?e = pre @ ustr_of ''not on Telegram'' @ post"
    by blast
  have nn: "?i \<noteq> []" by simp
  from translate_info_priority [of ?i] nn
  have "translate_info (Some ?i) =
        (if truthy (dict_get ?i (ustr_of ''error''))
         then
           (if \<exists>pre post. str_of (dict_get ?i (ustr_of ''error'')) =
                  pre @ ustr_of ''not on Telegram'' @ post
            then msg_not_on_telegram
            else if \<exists>pre post. str_of (dict_get ?i (ustr_of ''error'')) =
                  pre @ ustr_of ''multiple Telegram accounts'' @ post
            then msg_multiple_accounts
            else str_of (dict_get ?i (ustr_of ''error'')))
         else if truthy (dict_get ?i (ustr_of ''username''))
         then ustr_of ''@'' @ str_of (dict_get ?i (ustr_of ''username''))
         else if truthy (dict_get ?i (ustr_of ''id''))
         then msg_no_username
         else msg_undetermined)"
    by blast
  with t c have 3: "translate_info (Some ?i) = msg_not_on_telegram"
    by (simp only: g str_of.simps if_True)
  from ne a 1 2 3 show ?thesis by simp
qed

section \<open>The handler and the failures of the pipeline\<close>




text \<open>
  Claim C10. The handler answers every \<open>ValueError\<close> that leaves the pipeline with
  \<open>{"result": message}\<close> and status 200, wherever it was raised: in particular one
  raised by \<open>login\<close> inside the connection provider, and one raised by the lookup.
\<close>

theorem check_phone_any_ValueError:
  "(build_result_string w st p = (Inl (ValueError m), st') \<longrightarrow>
      check_phone w st p = (Inr (result_body m), st')) \<and>
   (normalize_phone p = Inr n \<and> client_global st = None \<and>
    login w (events st) = Inl (ValueError m) \<longrightarrow>
      check_phone w st p =
        (Inr (result_body m), st\<lparr>events := events st @ [Login (Inl (ValueError m))]\<rparr>)) \<and>
   (normalize_phone p = Inr n \<and> get_or_create_client w st = (Inr c, st1) \<and>
    get_user_info_by_phone w (events st1) c n = Inl (ValueError m) \<longrightarrow>
      check_phone w st p =
        (Inr (result_body m),
         st1\<lparr>events := events st1 @ [Lookup c n (Inl (ValueError m))]\<rparr>))"
proof -
  have a: "check_phone w st p = (Inr (result_body m), st')"
    if "build_result_string w st p = (Inl (ValueError m), st')"
    using that by (rule check_phone_ValueError)
  have b: "check_phone w st p =
        (Inr (result_body m), st\<lparr>events := events st @ [Login (Inl (ValueError m))]\<rparr>)"
    if "normalize_phone p = Inr n" "client_global st = None"
       "login w (events st) = Inl (ValueError m)"
    using that
    by (intro check_phone_ValueError)
       (simp add: build_result_string_def get_or_create_client_None)
  have c: "check_phone w st p =
        (Inr (result_body m),
         st1\<lparr>events := events st1 @ [Lookup c n (Inl (ValueError m))]\<rparr>)"
    if "normalize_phone p = Inr n" "get_or_create_client w st = (Inr c, st1)"
       "get_user_info_by_phone w (events st1) c n = Inl (ValueError m)"
    using that
    by (intro check_phone_ValueError) (simp add: build_result_string_def Let_def)
  from a b c show ?thesis by blast
qed

theorem check_phone_any_ValueError_witness:
  "check_phone world_lookup_ValueError initial_state (ustr_of ''+1234567'') =
     (Inr (result_body (ustr_of ''Cannot find any entity'')),
      \<lparr>client_global = Some 0,
       events = [Login (Inr 0),
                 Lookup 0 (ustr_of ''+1234567'')
                   (Inl (ValueError (ustr_of ''Cannot find any entity'')))],
       logged = []\<rparr>)"
proof -
  let ?m = "ustr_of ''Cannot find any entity''"
  let ?st1 = "\<lparr>client_global = Some 0, events = [Login (Inr 0)], logged = []\<rparr>"
  have g: "get_or_create_client world_lookup_ValueError initial_state = (Inr 0, ?st1)"
    by (simp add: world_eval get_or_create_client_def Let_def)
  have l: "get_user_info_by_phone world_lookup_ValueError (events ?st1) 0 (ustr_of ''+1234567'') =
      Inl (ValueError ?m)"
    by (simp add: world_eval)
  from check_phone_any_ValueError
    [where w = world_lookup_ValueError and st = initial_state and p = "ustr_of ''+1234567''"
       and m = ?m and n = "ustr_of ''+1234567''" and c = 0 and ?st1.0 = ?st1]
    phone_ok g l
  have "check_phone world_lookup_ValueError initial_state (ustr_of ''+1234567'') =
        (Inr (result_body ?m),
         ?st1\<lparr>events := events ?st1 @ [Lookup 0 (ustr_of ''+1234567'') (Inl (ValueError ?m))]\<rparr>)"
    by blast
  then show ?thesis by simp
qed

section \<open>Rejected input and the connection\<close>

text \<open>
  Claim C4. For every input whose stripped and prefixed form is not a \<open>+\<close> followed by
  5 to 20 digits, \<open>_build_result_string\<close> raises the \<open>ValueError\<close> of
  \<open>_normalize_phone\<close> and returns the state it was given: no \<open>login\<close>, no lookup, the
  same \<open>_client\<close>. The handler then answers with that message, the state still unchanged.
\<close>

theorem bad_phone_no_network:
  assumes "\<not> fullmatch_plus_digits (ensure_plus (re_sub_whitespace p))"
  shows "\<exists>m. normalize_phone p = Inl (ValueError m) \<and>
           build_result_string w st p = (Inl (ValueError m), st) \<and>
           check_phone w st p = (Inr (result_body m), st)"
proof -
  from assms have "\<exists>m. normalize_phone p = Inl (ValueError m)"
    by (simp add: normalize_phone_def Let_def)
  then obtain m where n: "normalize_phone p = Inl (ValueError m)" ..
  from build_result_string_bad [OF n]
  have b: "build_result_string w st p = (Inl (ValueError m), st)" .
  from check_phone_ValueError [OF b] n b show ?thesis by blast
qed

theorem bad_phone_no_network_witness:
  "\<not> fullmatch_plus_digits (ensure_plus (re_sub_whitespace (ustr_of ''12ab''))) \<and>
   build_result_string world_ok initial_state (ustr_of ''12ab'') =
     (Inl (ValueError msg_bad_format), initial_state) \<and>
   events (snd (build_result_string world_ok initial_state (ustr_of ''12ab''))) = [] \<and>
   client_global (snd (build_result_string world_ok initial_state (ustr_of ''12ab''))) = None"
proof -
  have h: "\<not> fullmatch_plus_digits (ensure_plus (re_sub_whitespace (ustr_of ''12ab'')))"
    by (simp add: string_eval)
  from bad_phone_no_network [OF h, of world_ok initial_state] phone_bad
  have "build_result_string world_ok initial_state (ustr_of ''12ab'') =
     (Inl (ValueError msg_bad_format), initial_state)"
    by auto
  with h show ?thesis by (simp add: initial_state_def)
qed

text \<open>
  Claim C8. The empty string fails on a branch of its own, with the empty-phone message,
  which differs from the invalid-format message that the later steps would have given
  it (stripped and prefixed, the empty string is \<open>+\<close>, which does not match). The
  handler returns that message with status 200, the state unchanged.
\<close>

theorem normalize_phone_empty:
  "normalize_phone [] = Inl (ValueError msg_empty_phone) \<and>
   msg_empty_phone \<noteq> msg_bad_format \<and>
   \<not> fullmatch_plus_digits (ensure_plus (re_sub_whitespace [])) \<and>
   check_phone w st [] = (Inr (result_body msg_empty_phone), st)"
  by (simp add: normalize_phone_def msg_empty_phone_def msg_bad_format_def check_phone_def
      build_result_string_def ensure_plus_cases fullmatch_plus_digits_def)

theorem normalize_phone_empty_witness:
  "check_phone world_ok initial_state [] = (Inr (result_body msg_empty_phone), initial_state)"
  using normalize_phone_empty [of world_ok initial_state] by blast

section \<open>The shared connection\<close>





section \<open>The two routes\<close>

text \<open>
  Claim C7. The POST handler is the GET handler on the \<open>phone\<close> field of the body: the
  same response and the same state. And for a body and a query parameter that normalize
  alike (as \<open>+1 234 567\<close> and \<open>+1234567\<close> do), in the same world and state, the two
  handlers give the same response, make the same calls and leave the same \<open>_client\<close>.
\<close>

theorem check_phone_post_same:
  "check_phone_post w st body = check_phone w st (phone body) \<and>
   (normalize_phone (phone body) = normalize_phone q \<longrightarrow>
      fst (check_phone_post w st body) = fst (check_phone w st q) \<and>
      client_global (snd (check_phone_post w st body)) = client_global (snd (check_phone w st q)) \<and>
      events (snd (check_phone_post w st body)) = events (snd (check_phone w st q)))"
proof -
  have a: "check_phone_post w st body = check_phone w st (phone body)"
    by (simp add: check_phone_post_def)
  have b: "fst (check_phone w st p) = fst (check_phone w st q) \<and>
      client_global (snd (check_phone w st p)) = client_global (snd (check_phone w st q)) \<and>
      events (snd (check_phone w st p)) = events (snd (check_phone w st q))"
    if n: "normalize_phone p = normalize_phone q" for p
  proof -
    have bb: "build_result_string w st p = build_result_string w st q"
      using n by (simp add: build_result_string_def)
    obtain r st1 where r: "build_result_string w st q = (r, st1)"
      by (cases "build_result_string w st q")
    show ?thesis
    proof (cases r)
      case (Inr s)
      with r bb show ?thesis by (simp add: check_phone_def)
    next
      case (Inl e)
      with r bb show ?thesis by (cases e) (simp_all add: check_phone_def)
    qed
  qed
  from a b [of "phone body"] show ?thesis by simp
qed

theorem check_phone_post_same_witness:
  "normalize_phone (phone \<lparr>phone = ustr_of ''+1 234 567''\<rparr>) =
     normalize_phone (ustr_of ''+1234567'') \<and>
   fst (check_phone_post world_ok initial_state \<lparr>phone = ustr_of ''+1 234 567''\<rparr>) =
     Inr (result_body (ustr_of ''@alice'')) \<and>
   fst (check_phone world_ok initial_state (ustr_of ''+1234567'')) =
     Inr (result_body (ustr_of ''@alice''))"
proof -
  have h: "normalize_phone (phone \<lparr>phone = ustr_of ''+1 234 567''\<rparr>) =
      normalize_phone (ustr_of ''+1234567'')"
    by (simp add: phone_ok phone_spaced)
  have g: "fst (check_phone world_ok initial_state (ustr_of ''+1234567'')) =
     Inr (result_body (ustr_of ''@alice''))"
    by (simp add: phone_ok world_eval pipeline_eval) (simp add: ustr_of_def)
  from check_phone_post_same
    [where body = "\<lparr>phone = ustr_of ''+1 234 567''\<rparr>" and q = "ustr_of ''+1234567''"
       and w = world_ok and st = initial_state] h
  have "fst (check_phone_post world_ok initial_state \<lparr>phone = ustr_of ''+1 234 567''\<rparr>) =
        fst (check_phone world_ok initial_state (ustr_of ''+1234567''))"
    by blast
  with h g show ?thesis by simp
qed

end
